theory Spec2Isabelle
  imports Main "HOL-Library.AList" "HOL-Library.Sublist"
begin

section \<open>JavaScript numbers and strings\<close>

text \<open>
  The source subtracts a string from a number (\<^verbatim>\<open>now - (lockFile.createAt || 0)\<close>), so the
  coercion of a string to a number is part of the program. A number is an integer or
  \<open>NaN\<close>; arithmetic with \<open>NaN\<close> gives \<open>NaN\<close> and every comparison with it is false.
\<close>

datatype jsnum = Num int | NaN

definition isDigit :: "char \<Rightarrow> bool" where
  "isDigit c = (48 \<le> (of_char c :: nat) \<and> (of_char c :: nat) \<le> 57)"

definition digitValue :: "char \<Rightarrow> int" where
  "digitValue c = int (of_char c) - 48"

definition decimalValue :: "string \<Rightarrow> int" where
  "decimalValue s = foldl (\<lambda>acc c. 10 * acc + digitValue c) 0 s"

definition isWhiteSpace :: "char \<Rightarrow> bool" where
  "isWhiteSpace c = (c \<in> set [CHR 0x20, CHR 0x09, CHR 0x0A, CHR 0x0B, CHR 0x0C, CHR 0x0D])"

definition trimJs :: "string \<Rightarrow> string" where
  "trimJs s = rev (dropWhile isWhiteSpace (rev (dropWhile isWhiteSpace s)))"

definition unsignedDecimal :: "string \<Rightarrow> bool" where
  "unsignedDecimal s = (s \<noteq> [] \<and> list_all isDigit s)"

text \<open>
  JavaScript's conversion of a string to a number, for the texts a creation time can be:
  surrounding white space is dropped, the empty text is 0, an optionally signed run of
  decimal digits is its value, and a text that is no numeric literal (a formatted date
  such as \<^verbatim>\<open>2025-10-27 10:00:00\<close>) is \<open>NaN\<close>. Literals with a fraction, an exponent
  or a radix prefix denote numbers \<open>jsnum\<close> does not hold; they are outside this model.
\<close>

definition toNumber :: "string \<Rightarrow> jsnum" where
  "toNumber s =
     (case trimJs s of
        [] \<Rightarrow> Num 0
      | c # r \<Rightarrow>
          if c = CHR ''+'' \<and> unsignedDecimal r then Num (decimalValue r)
          else if c = CHR ''-'' \<and> unsignedDecimal r then Num (- decimalValue r)
          else if unsignedDecimal (c # r) then Num (decimalValue (c # r))
          else NaN)"

fun jsMinus :: "jsnum \<Rightarrow> jsnum \<Rightarrow> jsnum" where
  "jsMinus (Num a) (Num b) = Num (a - b)"
| "jsMinus _ _ = NaN"

fun jsLess :: "jsnum \<Rightarrow> jsnum \<Rightarrow> bool" where
  "jsLess (Num a) (Num b) = (a < b)"
| "jsLess _ _ = False"

text \<open>\<^verbatim>\<open>s.split(c)\<close> for a one-character separator: never the empty list.\<close>

fun splitOn :: "char \<Rightarrow> string \<Rightarrow> string list" where
  "splitOn c [] = [[]]"
| "splitOn c (x # xs) =
     (if x = c then [] # splitOn c xs
      else (case splitOn c xs of [] \<Rightarrow> [[x]] | p # ps \<Rightarrow> (x # p) # ps))"

text \<open>\<^verbatim>\<open>parts.join(sep)\<close>.\<close>

fun joinWith :: "string \<Rightarrow> string list \<Rightarrow> string" where
  "joinWith sep [] = []"
| "joinWith sep [p] = p"
| "joinWith sep (p # q # ps) = p @ sep @ joinWith sep (q # ps)"

text \<open>\<^verbatim>\<open>parts.pop()\<close> and \<^verbatim>\<open>parts[parts.length - 1]\<close> on the result of a split, which is
  never empty; the empty text stands for \<open>undefined\<close> only on the empty list.\<close>

definition lastPart :: "string list \<Rightarrow> string" where
  "lastPart ps = (case rev ps of [] \<Rightarrow> [] | p # _ \<Rightarrow> p)"

text \<open>\<^verbatim>\<open>s.lastIndexOf(c)\<close>, \<open>None\<close> for JavaScript's -1.\<close>

definition lastIndexOf :: "char \<Rightarrow> string \<Rightarrow> nat option" where
  "lastIndexOf c s =
     (if c \<in> set s then Some (length s - 1 - length (takeWhile (\<lambda>x. x \<noteq> c) (rev s))) else None)"

section \<open>Sync history (remote.ts, sync-history.ts)\<close>

text \<open>
  An endpoint of a sync pair. \<open>instanceId\<close> is optional in the source
  (\<^verbatim>\<open>instanceId?: string\<close>); \<open>syncHistory\<close> is a \<^verbatim>\<open>Map<string, number>\<close>
  from a peer's id to the epoch second of the last sync with it, kept here as the list of
  its entries in insertion order. Timestamps are whole seconds, hence \<open>int\<close>.
\<close>

record Remote =
  remoteName :: string
  isCloud :: bool
  instanceId :: "string option"
  syncHistory :: "(string \<times> int) list"

text \<open>\<^verbatim>\<open>remote.syncHistory.get(instanceId) || 0\<close>: a missing entry is \<open>undefined\<close>, which
  \<^verbatim>\<open>||\<close> turns into 0; a stored 0 stays 0.\<close>

definition getLastSyncWithRemote :: "Remote \<Rightarrow> string \<Rightarrow> int" where
  "getLastSyncWithRemote remote peer =
     (case map_of (syncHistory remote) peer of None \<Rightarrow> 0 | Some t \<Rightarrow> t)"

text \<open>\<^verbatim>\<open>Math.max(...values)\<close>, or 0 for an empty history.\<close>

definition getMostRecentSyncTime :: "Remote \<Rightarrow> int" where
  "getMostRecentSyncTime remote =
     (if syncHistory remote = [] then 0 else Max (set (map snd (syncHistory remote))))"

text \<open>\<^verbatim>\<open>remote.instanceId || ""\<close>: an absent id reads as the empty string.\<close>

definition idOrEmpty :: "string option \<Rightarrow> string" where
  "idOrEmpty i = (case i of None \<Rightarrow> [] | Some s \<Rightarrow> s)"

section \<open>Conflict detection (conflict-handler.ts)\<close>

definition detectConflict :: "string \<Rightarrow> int \<Rightarrow> int \<Rightarrow> Remote \<Rightarrow> Remote \<Rightarrow> bool" where
  "detectConflict path localTimestamp cloudTimestamp localRemote cloudRemote =
     (let localLastSync = getLastSyncWithRemote localRemote (idOrEmpty (instanceId cloudRemote));
          cloudLastSync = getLastSyncWithRemote cloudRemote (idOrEmpty (instanceId localRemote))
      in if localLastSync = 0 \<and> cloudLastSync = 0 then False
         else if localTimestamp = cloudTimestamp then False
         else (let localModified = (localTimestamp > localLastSync);
                   cloudModified = (cloudTimestamp > cloudLastSync)
               in if localModified \<and> cloudModified then True else False))"

section \<open>Errors\<close>

text \<open>
  Calls the program sends out, as the hub and the local kernel see them. The hub folder
  is the one folder (\<^verbatim>\<open>remoteFolderId\<close>) every call of the sync engine names.
\<close>

datatype request =
    ListFiles
  | DeleteFiles "int list"
  | UploadSingle string string
  | GetDownloadUrl int
  | Fetch int
  | LocalGetFile string
  | LocalPutFile string string int
  | LocalRemoveFile string

text \<open>Every \<^verbatim>\<open>throw\<close> of the modelled code is a value of this type.\<close>

datatype error =
    StorageItemPathEmpty
  | JoinTwoNullItems
  | JoinDifferentPaths
  | SyncLockAlreadyExists
  | NoIndexToSave
  | TooManyFileIds
  | RequestFailed request
  | FileNotOnHub int
  | MissingFileId
  | DownloadNotOk int
  | LocalFileUnreadable string
  | LocalSaveFailed string
  | JsonSyntaxError
  | TypeError

section \<open>Storage tree (storage-item.ts)\<close>

text \<open>
  \<^verbatim>\<open>FileInfo\<close>: \<^verbatim>\<open>name\<close>, \<^verbatim>\<open>path\<close>, \<^verbatim>\<open>isDir\<close>, \<^verbatim>\<open>updated\<close> (epoch seconds) and the
  optional \<^verbatim>\<open>size\<close>, \<^verbatim>\<open>md5\<close> and \<^verbatim>\<open>fileId\<close>. Field names carry the prefix \<open>fi_\<close>,
  since other records of the source have fields of the same names.
\<close>

record FileInfo =
  fi_name :: string
  fi_path :: string
  fi_isDir :: bool
  fi_updated :: int
  fi_size :: "int option"
  fi_md5 :: "string option"
  fi_fileId :: "int option"

text \<open>A node of a snapshot tree: \<^verbatim>\<open>path\<close>, \<^verbatim>\<open>parentPath\<close>, \<^verbatim>\<open>item\<close> and \<^verbatim>\<open>files\<close>.\<close>

datatype StorageItem =
  StorageItem (itemPath: string) (itemParentPath: "string option")
    (itemInfo: "FileInfo option") (itemFiles: "StorageItem list")

text \<open>The constructor refuses an empty path.\<close>

definition newStorageItem ::
  "string \<Rightarrow> string option \<Rightarrow> FileInfo option \<Rightarrow> StorageItem list \<Rightarrow> error + StorageItem" where
  "newStorageItem p parent i fs =
     (if p = [] then Inl StorageItemPathEmpty else Inr (StorageItem p parent i fs))"

text \<open>
  \<^verbatim>\<open>filesMap.set(file.path, file)\<close> on a JavaScript \<^verbatim>\<open>Map\<close>, kept as the list of its
  entries in insertion order: a key already there keeps its place and takes the new value,
  a new key goes to the end. That is \<^const>\<open>AList.update\<close>.
\<close>

definition filesMapOf :: "StorageItem list \<Rightarrow> (string \<times> StorageItem) list" where
  "filesMapOf fs = fold (\<lambda>file m. AList.update (itemPath file) file m) fs []"

definition joinItems :: "StorageItem option \<Rightarrow> StorageItem option \<Rightarrow> error + StorageItem" where
  "joinItems item1 item2 =
     (case (item1, item2) of
        (None, None) \<Rightarrow> Inl JoinTwoNullItems
      | (None, Some b) \<Rightarrow> Inr b
      | (Some a, None) \<Rightarrow> Inr a
      | (Some a, Some b) \<Rightarrow>
          if itemPath a \<noteq> itemPath b then Inl JoinDifferentPaths
          else newStorageItem (itemPath a) (itemParentPath a)
                 (case itemInfo a of Some i \<Rightarrow> Some i | None \<Rightarrow> itemInfo b)
                 (map snd (filesMapOf (itemFiles a @ itemFiles b))))"

section \<open>The hub folder and the local kernel\<close>

text \<open>
  \<^verbatim>\<open>CloudFile\<close>, an entry of the hub's folder listing: its id, its name, its type (0 a
  file, 1 a folder) and its creation time, which the hub sends as text
  (\<^verbatim>\<open>createAt: string\<close>).
\<close>

record CloudFile =
  cf_fileId :: int
  cf_filename :: string
  cf_type :: int
  cf_createAt :: string

text \<open>What a \<^verbatim>\<open>fetch\<close> resolves to: \<^verbatim>\<open>response.ok\<close> and the text of the body.\<close>

record response =
  rsp_ok :: bool
  rsp_body :: string

text \<open>
  How a call ends: it succeeds, it throws (the network fails, the hub answers with an
  error code, a time-out), or, for a plain \<^verbatim>\<open>fetch\<close>, it resolves to a response that is
  not ok.
\<close>

datatype outcome = Succeeds | Throws | NotOk

text \<open>\<^verbatim>\<open>CloudFileInfo\<close> and \<^verbatim>\<open>CloudIndexV2\<close> of cloud-index.ts. The entries of \<^verbatim>\<open>files\<close>
  are kept as a list of (path, info) pairs with one pair per path.\<close>

record CloudFileInfo =
  cfi_name :: string
  cfi_path :: string
  cfi_encodedFileName :: string
  cfi_fileId :: int
  cfi_updated :: int
  cfi_size :: int
  cfi_md5 :: "string option"
  cfi_isDir :: bool

record CloudIndexV2 =
  idx_version :: int
  idx_lastUpdated :: int
  idx_instanceId :: string
  idx_files :: "(string \<times> CloudFileInfo) list"

text \<open>
  What \<^verbatim>\<open>response.json()\<close> gives for the index object, as far as \<^verbatim>\<open>load\<close> looks at it:
  the text is no JSON, it is JSON \<^verbatim>\<open>null\<close>, or it is a value whose \<^verbatim>\<open>version\<close> member is
  absent, null, a number, a string or something else, and whose \<^verbatim>\<open>files\<close> member is
  an object or is missing (\<open>None\<close>: absent or null). A value that is not an object has
  no members. The other members are taken to be typed as \<^verbatim>\<open>CloudIndexV2\<close> says.
\<close>

datatype jsmember = Absent | JsNull | JsNumber int | JsString string | JsOther

record parsed_doc =
  pd_version :: jsmember
  pd_lastUpdated :: int
  pd_instanceId :: string
  pd_files :: "(string \<times> CloudFileInfo) list option"

datatype parsed = SyntaxError | JsonNull | JsonValue parsed_doc

datatype operation = OpUpload | OpDownload | OpDelete

record SyncError =
  se_path :: string
  se_operation :: operation
  se_error :: error
  se_timestamp :: int

text \<open>
  What the program does not decide: how the \<open>n\<close>-th call it sends ends, the JSON codec,
  the creation time the hub stamps on a new object, the random ids, the content digest
  and the locale's rendering of a date.
\<close>

record env =
  respond :: "nat \<Rightarrow> request \<Rightarrow> outcome"
  parseJson :: "string \<Rightarrow> parsed"
  stringifyIndex :: "CloudIndexV2 \<Rightarrow> string"
  stringifyLock :: "int \<Rightarrow> string \<Rightarrow> string"
  hubCreateAt :: "int \<Rightarrow> string"
  randomUUID :: "nat \<Rightarrow> string"
  digest :: "string \<Rightarrow> string"
  formatDate :: "int \<Rightarrow> string"

text \<open>
  The state a run reads and writes: the clock (\<^verbatim>\<open>Date.now()\<close>, milliseconds; it stands
  still during a run), the objects of the hub folder that are not in the trash, each
  with its content, the local files (content and modification time by path), the calls
  sent so far, and the fields of \<^verbatim>\<open>CloudIndexManager\<close> and \<^verbatim>\<open>SyncManager\<close>.
\<close>

record world =
  now :: int
  objects :: "(CloudFile \<times> string) list"
  nextFileId :: int
  localFiles :: "(string \<times> string \<times> int) list"
  uuidsDrawn :: nat
  requests :: "request list"
  currentIndex :: "CloudIndexV2 option"
  conflictDetected :: bool
  syncErrors :: "SyncError list"

text \<open>Sequencing of calls that may throw: the first error ends the sequence.\<close>

definition andThen ::
  "(error + 'a) \<times> world \<Rightarrow> ('a \<Rightarrow> world \<Rightarrow> (error + 'b) \<times> world) \<Rightarrow> (error + 'b) \<times> world" where
  "andThen m f = (case m of (Inl e, w) \<Rightarrow> (Inl e, w) | (Inr x, w) \<Rightarrow> f x w)"

definition call :: "env \<Rightarrow> request \<Rightarrow> world \<Rightarrow> outcome \<times> world" where
  "call env r w = (respond env (length (requests w)) r, w\<lparr>requests := requests w @ [r]\<rparr>)"

text \<open>The calls that change what is stored, on the hub or locally.\<close>

fun mutating :: "request \<Rightarrow> bool" where
  "mutating (DeleteFiles _) = True"
| "mutating (UploadSingle _ _) = True"
| "mutating (LocalPutFile _ _ _) = True"
| "mutating (LocalRemoveFile _) = True"
| "mutating _ = False"

subsection \<open>Pan123Client, at its boundary\<close>

definition listFiles :: "env \<Rightarrow> world \<Rightarrow> (error + CloudFile list) \<times> world" where
  "listFiles env w =
     (case call env ListFiles w of
        (Succeeds, w') \<Rightarrow> (Inr (map fst (objects w')), w')
      | (_, w') \<Rightarrow> (Inl (RequestFailed ListFiles), w'))"

text \<open>\<^verbatim>\<open>deleteFiles\<close> moves the objects to the trash, which no listing shows.\<close>

definition deleteFiles :: "env \<Rightarrow> int list \<Rightarrow> world \<Rightarrow> (error + unit) \<times> world" where
  "deleteFiles env fileIds w =
     (if fileIds = [] then (Inr (), w)
      else if length fileIds > 100 then (Inl TooManyFileIds, w)
      else (case call env (DeleteFiles fileIds) w of
              (Succeeds, w') \<Rightarrow>
                (Inr (), w'\<lparr>objects := filter (\<lambda>(f, c). cf_fileId f \<notin> set fileIds) (objects w')\<rparr>)
            | (_, w') \<Rightarrow> (Inl (RequestFailed (DeleteFiles fileIds)), w')))"

text \<open>
  \<^verbatim>\<open>uploadSingle\<close> with \<^verbatim>\<open>duplicateStrategy: 2\<close> (override), as every caller here passes it:
  one call that throws or leaves a new file object of that name, in place of any file of
  the same name. The chunked transfer inside it is modelled on its own below.
\<close>

definition uploadSingle :: "env \<Rightarrow> string \<Rightarrow> string \<Rightarrow> world \<Rightarrow> (error + int) \<times> world" where
  "uploadSingle env filename content w =
     (case call env (UploadSingle filename content) w of
        (Succeeds, w') \<Rightarrow>
          (let newId = nextFileId w';
               f = \<lparr>cf_fileId = newId, cf_filename = filename, cf_type = 0,
                    cf_createAt = hubCreateAt env (now w')\<rparr>
           in (Inr newId,
               w'\<lparr>objects := filter (\<lambda>(g, c). \<not> (cf_type g = 0 \<and> cf_filename g = filename)) (objects w')
                              @ [(f, content)],
                  nextFileId := newId + 1\<rparr>))
      | (_, w') \<Rightarrow> (Inl (RequestFailed (UploadSingle filename content)), w'))"

text \<open>The download location of an object stands for the object: it is its id.\<close>

definition getDownloadUrl :: "env \<Rightarrow> int \<Rightarrow> world \<Rightarrow> (error + int) \<times> world" where
  "getDownloadUrl env fid w =
     (case call env (GetDownloadUrl fid) w of
        (Succeeds, w') \<Rightarrow>
          (case find (\<lambda>(f, c). cf_fileId f = fid) (objects w') of
             Some _ \<Rightarrow> (Inr fid, w')
           | None \<Rightarrow> (Inl (FileNotOnHub fid), w'))
      | (_, w') \<Rightarrow> (Inl (RequestFailed (GetDownloadUrl fid)), w'))"

definition fetch :: "env \<Rightarrow> int \<Rightarrow> world \<Rightarrow> (error + response) \<times> world" where
  "fetch env downloadUrl w =
     (case call env (Fetch downloadUrl) w of
        (Throws, w') \<Rightarrow> (Inl (RequestFailed (Fetch downloadUrl)), w')
      | (NotOk, w') \<Rightarrow> (Inr \<lparr>rsp_ok = False, rsp_body = []\<rparr>, w')
      | (Succeeds, w') \<Rightarrow>
          (case find (\<lambda>(f, c). cf_fileId f = downloadUrl) (objects w') of
             Some (f, c) \<Rightarrow> (Inr \<lparr>rsp_ok = True, rsp_body = c\<rparr>, w')
           | None \<Rightarrow> (Inr \<lparr>rsp_ok = False, rsp_body = []\<rparr>, w')))"

subsection \<open>The local kernel's file API\<close>

definition localGetFile :: "env \<Rightarrow> string \<Rightarrow> world \<Rightarrow> (error + response) \<times> world" where
  "localGetFile env p w =
     (case call env (LocalGetFile p) w of
        (Throws, w') \<Rightarrow> (Inl (RequestFailed (LocalGetFile p)), w')
      | (NotOk, w') \<Rightarrow> (Inr \<lparr>rsp_ok = False, rsp_body = []\<rparr>, w')
      | (Succeeds, w') \<Rightarrow>
          (case map_of (localFiles w') p of
             Some (c, t) \<Rightarrow> (Inr \<lparr>rsp_ok = True, rsp_body = c\<rparr>, w')
           | None \<Rightarrow> (Inr \<lparr>rsp_ok = False, rsp_body = []\<rparr>, w')))"

definition localPutFile :: "env \<Rightarrow> string \<Rightarrow> string \<Rightarrow> int \<Rightarrow> world \<Rightarrow> (error + response) \<times> world" where
  "localPutFile env p content modTime w =
     (case call env (LocalPutFile p content modTime) w of
        (Throws, w') \<Rightarrow> (Inl (RequestFailed (LocalPutFile p content modTime)), w')
      | (NotOk, w') \<Rightarrow> (Inr \<lparr>rsp_ok = False, rsp_body = []\<rparr>, w')
      | (Succeeds, w') \<Rightarrow>
          (Inr \<lparr>rsp_ok = True, rsp_body = []\<rparr>,
           w'\<lparr>localFiles := AList.update p (content, modTime) (localFiles w')\<rparr>))"

definition localRemoveFile :: "env \<Rightarrow> string \<Rightarrow> world \<Rightarrow> (error + response) \<times> world" where
  "localRemoveFile env p w =
     (case call env (LocalRemoveFile p) w of
        (Throws, w') \<Rightarrow> (Inl (RequestFailed (LocalRemoveFile p)), w')
      | (NotOk, w') \<Rightarrow> (Inr \<lparr>rsp_ok = False, rsp_body = []\<rparr>, w')
      | (Succeeds, w') \<Rightarrow>
          (Inr \<lparr>rsp_ok = True, rsp_body = []\<rparr>, w'\<lparr>localFiles := AList.delete p (localFiles w')\<rparr>))"

section \<open>CloudIndexManager (cloud-index.ts)\<close>

definition indexFileName :: string where
  "indexFileName = ''cloud-index-v2.json''"

definition createEmptyIndex :: "int \<Rightarrow> CloudIndexV2" where
  "createEmptyIndex t = \<lparr>idx_version = 2, idx_lastUpdated = t, idx_instanceId = [], idx_files = []\<rparr>"

text \<open>\<^verbatim>\<open>indexData as CloudIndexV2\<close>: the parsed object itself, member for member.\<close>

definition asCloudIndexV2 :: "parsed_doc \<Rightarrow> (string \<times> CloudFileInfo) list \<Rightarrow> CloudIndexV2" where
  "asCloudIndexV2 indexData fs =
     \<lparr>idx_version = 2, idx_lastUpdated = pd_lastUpdated indexData,
      idx_instanceId = pd_instanceId indexData, idx_files = fs\<rparr>"

text \<open>
  The \<^verbatim>\<open>try\<close> block of \<^verbatim>\<open>load\<close>. Reading \<^verbatim>\<open>indexData.version\<close> of \<^verbatim>\<open>null\<close> throws a
  \<^verbatim>\<open>TypeError\<close>, and so does \<^verbatim>\<open>Object.keys(this.currentIndex.files)\<close> in the log line that
  follows the version check when the \<^verbatim>\<open>files\<close> member is missing.
\<close>

definition loadAttempt :: "env \<Rightarrow> world \<Rightarrow> (error + CloudIndexV2) \<times> world" where
  "loadAttempt env w =
     andThen (listFiles env w) (\<lambda>files w1.
       case find (\<lambda>f. cf_type f = 0 \<and> cf_filename f = indexFileName) files of
         None \<Rightarrow> (Inr (createEmptyIndex (now w1)), w1)
       | Some indexFile \<Rightarrow>
           andThen (getDownloadUrl env (cf_fileId indexFile) w1) (\<lambda>downloadUrl w2.
             andThen (fetch env downloadUrl w2) (\<lambda>response w3.
               if \<not> rsp_ok response then (Inr (createEmptyIndex (now w3)), w3)
               else (case parseJson env (rsp_body response) of
                       SyntaxError \<Rightarrow> (Inl JsonSyntaxError, w3)
                     | JsonNull \<Rightarrow> (Inl TypeError, w3)
                     | JsonValue indexData \<Rightarrow>
                         if pd_version indexData \<noteq> JsNumber 2
                         then (Inr (createEmptyIndex (now w3)), w3)
                         else (case pd_files indexData of
                                 None \<Rightarrow> (Inl TypeError, w3)
                               | Some fs \<Rightarrow> (Inr (asCloudIndexV2 indexData fs), w3))))))"

text \<open>\<^verbatim>\<open>load\<close>: the cached document if there is one; else the outcome of the \<^verbatim>\<open>try\<close>
  block, with the \<^verbatim>\<open>catch\<close> putting an empty document in place of any error. Either way
  the result is cached.\<close>

definition load :: "env \<Rightarrow> world \<Rightarrow> CloudIndexV2 \<times> world" where
  "load env w =
     (case currentIndex w of
        Some index \<Rightarrow> (index, w)
      | None \<Rightarrow>
          (case loadAttempt env w of
             (Inr index, w') \<Rightarrow> (index, w'\<lparr>currentIndex := Some index\<rparr>)
           | (Inl e, w') \<Rightarrow>
               (createEmptyIndex (now w'), w'\<lparr>currentIndex := Some (createEmptyIndex (now w'))\<rparr>)))"

text \<open>
  \<^verbatim>\<open>save(index)\<close>. Every caller passes the object \<^verbatim>\<open>load()\<close> gave it, which is the cached
  object itself, so the document saved is the cached one and a write to a member of
  \<^verbatim>\<open>index\<close> is a write to the cache; \<^verbatim>\<open>lastUpdated\<close> is set before the first call goes
  out and stays set when the save fails.
\<close>

definition save :: "env \<Rightarrow> world \<Rightarrow> (error + unit) \<times> world" where
  "save env w =
     (case currentIndex w of
        None \<Rightarrow> (Inl NoIndexToSave, w)
      | Some index \<Rightarrow>
          (let indexToSave = index\<lparr>idx_lastUpdated := now w\<rparr>;
               w0 = w\<lparr>currentIndex := Some indexToSave\<rparr>
           in andThen (listFiles env w0) (\<lambda>files w1.
                andThen (case find (\<lambda>f. cf_type f = 0 \<and> cf_filename f = indexFileName) files of
                           Some oldIndexFile \<Rightarrow> deleteFiles env [cf_fileId oldIndexFile] w1
                         | None \<Rightarrow> (Inr (), w1)) (\<lambda>_ w2.
                  andThen (uploadSingle env indexFileName (stringifyIndex env indexToSave) w2) (\<lambda>_ w3.
                    (Inr (), w3\<lparr>currentIndex := Some indexToSave\<rparr>))))))"

definition updateFile :: "env \<Rightarrow> string \<Rightarrow> CloudFileInfo \<Rightarrow> world \<Rightarrow> (error + unit) \<times> world" where
  "updateFile env p fileInfo w =
     (let (index, w1) = load env w;
          w2 = w1\<lparr>currentIndex := Some (index\<lparr>idx_files := AList.update p fileInfo (idx_files index)\<rparr>)\<rparr>
      in save env w2)"

text \<open>\<^verbatim>\<open>if (index.files[path])\<close>: an entry is an object, hence truthy, so the test is
  whether the path has an entry.\<close>

definition removeFile :: "env \<Rightarrow> string \<Rightarrow> world \<Rightarrow> (error + unit) \<times> world" where
  "removeFile env p w =
     (let (index, w1) = load env w
      in if map_of (idx_files index) p \<noteq> None
         then save env (w1\<lparr>currentIndex := Some (index\<lparr>idx_files := AList.delete p (idx_files index)\<rparr>)\<rparr>)
         else (Inr (), w1))"



definition getAllFiles :: "env \<Rightarrow> world \<Rightarrow> (string \<times> CloudFileInfo) list \<times> world" where
  "getAllFiles env w = (let (index, w1) = load env w in (idx_files index, w1))"

definition setInstanceId :: "env \<Rightarrow> string \<Rightarrow> world \<Rightarrow> (error + unit) \<times> world" where
  "setInstanceId env newId w =
     (let (index, w1) = load env w;
          w2 = w1\<lparr>currentIndex := Some (index\<lparr>idx_instanceId := newId\<rparr>)\<rparr>
      in save env w2)"

section \<open>SyncUtils and SyncManager: identities and the run lock\<close>

definition instanceIdPath :: string where
  "instanceIdPath = ''/data/.siyuan/sync/instance-id''"

definition instanceIdFileName :: string where
  "instanceIdFileName = ''instance-id''"

definition lockFileName :: string where
  "lockFileName = ''sync.lock''"

definition fiveMinutesInMs :: int where
  "fiveMinutesInMs = 5 * 60 * 1000"

definition generateInstanceId :: "env \<Rightarrow> world \<Rightarrow> string \<times> world" where
  "generateInstanceId env w = (randomUUID env (uuidsDrawn w), w\<lparr>uuidsDrawn := uuidsDrawn w + 1\<rparr>)"

definition setLocalInstanceId :: "env \<Rightarrow> string \<Rightarrow> world \<Rightarrow> (error + unit) \<times> world" where
  "setLocalInstanceId env newId w =
     andThen (localPutFile env instanceIdPath newId (now w div 1000) w) (\<lambda>_ w1. (Inr (), w1))"

definition freshLocalInstanceId :: "env \<Rightarrow> world \<Rightarrow> (error + string) \<times> world" where
  "freshLocalInstanceId env w =
     (let (newInstanceId, w1) = generateInstanceId env w
      in andThen (setLocalInstanceId env newInstanceId w1) (\<lambda>_ w2. (Inr newInstanceId, w2)))"

text \<open>\<^verbatim>\<open>getLocalInstanceId\<close>: the stored id; a new one when the file is not there, and in
  the \<^verbatim>\<open>catch\<close> when reading it throws.\<close>

definition getLocalInstanceId :: "env \<Rightarrow> world \<Rightarrow> (error + string) \<times> world" where
  "getLocalInstanceId env w =
     (case localGetFile env instanceIdPath w of
        (Inr response, w1) \<Rightarrow>
          if rsp_ok response then (Inr (rsp_body response), w1) else freshLocalInstanceId env w1
      | (Inl e, w1) \<Rightarrow> freshLocalInstanceId env w1)"

definition setCloudInstanceId :: "env \<Rightarrow> string \<Rightarrow> world \<Rightarrow> (error + unit) \<times> world" where
  "setCloudInstanceId env newId w =
     andThen (listFiles env w) (\<lambda>files w1.
       andThen (case find (\<lambda>f. cf_type f = 0 \<and> cf_filename f = instanceIdFileName) files of
                  Some oldInstanceIdFile \<Rightarrow> deleteFiles env [cf_fileId oldInstanceIdFile] w1
                | None \<Rightarrow> (Inr (), w1)) (\<lambda>_ w2.
         andThen (uploadSingle env instanceIdFileName newId w2) (\<lambda>_ w3. (Inr (), w3))))"

definition freshCloudInstanceId :: "env \<Rightarrow> world \<Rightarrow> (error + string) \<times> world" where
  "freshCloudInstanceId env w =
     (let (newInstanceId, w1) = generateInstanceId env w
      in andThen (setCloudInstanceId env newInstanceId w1) (\<lambda>_ w2. (Inr newInstanceId, w2)))"

definition getCloudInstanceIdAttempt :: "env \<Rightarrow> world \<Rightarrow> (error + string) \<times> world" where
  "getCloudInstanceIdAttempt env w =
     andThen (listFiles env w) (\<lambda>files w1.
       case find (\<lambda>f. cf_type f = 0 \<and> cf_filename f = instanceIdFileName) files of
         None \<Rightarrow> freshCloudInstanceId env w1
       | Some instanceIdFile \<Rightarrow>
           andThen (getDownloadUrl env (cf_fileId instanceIdFile) w1) (\<lambda>downloadUrl w2.
             andThen (fetch env downloadUrl w2) (\<lambda>response w3. (Inr (rsp_body response), w3))))"

text \<open>\<^verbatim>\<open>getCloudInstanceId\<close>: the \<^verbatim>\<open>try\<close> block, and in the \<^verbatim>\<open>catch\<close> a new id, whose
  upload may throw in turn.\<close>

definition getCloudInstanceId :: "env \<Rightarrow> world \<Rightarrow> (error + string) \<times> world" where
  "getCloudInstanceId env w =
     (case getCloudInstanceIdAttempt env w of
        (Inr i, w1) \<Rightarrow> (Inr i, w1)
      | (Inl e, w1) \<Rightarrow> freshCloudInstanceId env w1)"

text \<open>The two remotes, named in the source by the Chinese words for local and cloud.\<close>

definition initializeRemotes :: "env \<Rightarrow> world \<Rightarrow> (error + Remote \<times> Remote) \<times> world" where
  "initializeRemotes env w =
     andThen (getLocalInstanceId env w) (\<lambda>localId w1.
       andThen (getCloudInstanceId env w1) (\<lambda>cloudId w2.
         (Inr (\<lparr>remoteName = ''local'', isCloud = False, instanceId = Some localId, syncHistory = []\<rparr>,
               \<lparr>remoteName = ''cloud'', isCloud = True, instanceId = Some cloudId, syncHistory = []\<rparr>),
          w2)))"

text \<open>
  \<^verbatim>\<open>acquireLock\<close>. The age of a lock is \<^verbatim>\<open>now - (lockFile.createAt || 0)\<close>, a number minus
  a text: the empty text gives way to 0, any other text is converted to a number. The
  error thrown for a young lock is the only one with the lock-exists message.
\<close>

definition acquireLock :: "env \<Rightarrow> world \<Rightarrow> (error + unit) \<times> world" where
  "acquireLock env w =
     andThen (listFiles env w) (\<lambda>files w1.
       andThen (case find (\<lambda>f. cf_type f = 0 \<and> cf_filename f = lockFileName) files of
                  Some lockFile \<Rightarrow>
                    (let lockAge = jsMinus (Num (now w1))
                                     (if cf_createAt lockFile = [] then Num 0
                                      else toNumber (cf_createAt lockFile))
                     in if jsLess lockAge (Num fiveMinutesInMs) then (Inl SyncLockAlreadyExists, w1)
                        else deleteFiles env [cf_fileId lockFile] w1)
                | None \<Rightarrow> (Inr (), w1)) (\<lambda>_ w2.
         andThen (getLocalInstanceId env w2) (\<lambda>localId w3.
           andThen (uploadSingle env lockFileName (stringifyLock env (now w3) localId) w3) (\<lambda>_ w4.
             (Inr (), w4)))))"

text \<open>\<^verbatim>\<open>releaseLock\<close> swallows every error.\<close>

definition releaseLock :: "env \<Rightarrow> world \<Rightarrow> world" where
  "releaseLock env w =
     (case listFiles env w of
        (Inl e, w1) \<Rightarrow> w1
      | (Inr files, w1) \<Rightarrow>
          (case find (\<lambda>f. cf_type f = 0 \<and> cf_filename f = lockFileName) files of
             Some lockFile \<Rightarrow> snd (deleteFiles env [cf_fileId lockFile] w1)
           | None \<Rightarrow> w1))"

text \<open>
  \<^verbatim>\<open>sync\<close>. Steps 3 to 6 of the source (histories, the targets, the new sync times) run
  between taking and releasing the lock; they are the parameter \<open>lockedRegion\<close>, which is
  given the two remotes. \<^verbatim>\<open>initializeRemotes\<close> always sets the cloud id, so the source's
  \<^verbatim>\<open>cloudRemote.instanceId!\<close> is that id.
\<close>

definition sync ::
  "env \<Rightarrow> (Remote \<Rightarrow> Remote \<Rightarrow> world \<Rightarrow> (error + unit) \<times> world) \<Rightarrow> world \<Rightarrow> (error + unit) \<times> world" where
  "sync env lockedRegion w =
     andThen (initializeRemotes env (w\<lparr>conflictDetected := False, syncErrors := []\<rparr>))
       (\<lambda>(localRemote, cloudRemote) w1.
         (let (index, w2) = load env w1
          in andThen (setInstanceId env (idOrEmpty (instanceId cloudRemote)) w2) (\<lambda>_ w3.
               andThen (acquireLock env w3) (\<lambda>_ w4.
                 (let (result, w5) = lockedRegion localRemote cloudRemote w4
                  in (result, releaseLock env w5))))))"

section \<open>Conflict resolution (conflict-handler.ts)\<close>

datatype strategy = KeepBoth | KeepNewer | KeepLocal | KeepRemote

text \<open>The four ideographs of the source's label for a conflict copy, as UTF-8 bytes.\<close>

definition conflictCopyLabel :: string where
  "conflictCopyLabel =
     [CHR 0xE5, CHR 0x86, CHR 0xB2, CHR 0xE7, CHR 0xAA, CHR 0x81,
      CHR 0xE5, CHR 0x89, CHR 0xAF, CHR 0xE6, CHR 0x9C, CHR 0xAC]"

text \<open>
  The name of the conflict copy of \<open>fileName\<close> for the older timestamp (seconds): the
  date as the locale renders it (\<^verbatim>\<open>getFormattedDate\<close>, a parameter), with every colon and
  white space replaced by a hyphen, goes between the base name and the extension.
\<close>

definition conflictFileNameOf :: "env \<Rightarrow> string \<Rightarrow> int \<Rightarrow> string" where
  "conflictFileNameOf env fileName olderTimestamp =
     (let timestamp = olderTimestamp * 1000;
          formattedDate = map (\<lambda>c. if c = CHR '':'' \<or> isWhiteSpace c then CHR ''-'' else c)
                            (formatDate env timestamp);
          fileExt = (if CHR ''.'' \<in> set fileName then lastPart (splitOn CHR ''.'' fileName) else []);
          fileBaseName = (if fileExt \<noteq> []
                          then (case lastIndexOf CHR ''.'' fileName of
                                  Some i \<Rightarrow> take i fileName
                                | None \<Rightarrow> [])
                          else fileName)
      in fileBaseName @ '' ('' @ conflictCopyLabel @ '' '' @ formattedDate @ '')''
           @ (if fileExt \<noteq> [] then ''.'' @ fileExt else []))"

definition conflictPathOf :: "env \<Rightarrow> string \<Rightarrow> int \<Rightarrow> string" where
  "conflictPathOf env path olderTimestamp =
     (let pathParts = splitOn CHR ''/'' path;
          fileName = lastPart pathParts;
          conflictFileName = conflictFileNameOf env fileName olderTimestamp;
          dirPath = joinWith ''/'' (butlast pathParts)
      in dirPath @ ''/'' @ conflictFileName)"

text \<open>
  \<^verbatim>\<open>handleConflict\<close> (keep both). Only when the local side is the older one is anything
  read or written: the local file is read and, if that went well, written again under
  the conflict path with the older timestamp. Every error is caught; the messages shown
  to the user are not modelled.
\<close>

definition handleConflict :: "env \<Rightarrow> string \<Rightarrow> int \<Rightarrow> int \<Rightarrow> world \<Rightarrow> world" where
  "handleConflict env path localTimestamp cloudTimestamp w =
     (let olderTimestamp = min localTimestamp cloudTimestamp;
          isLocalOlder = (localTimestamp < cloudTimestamp);
          conflictPath = conflictPathOf env path olderTimestamp
      in if isLocalOlder
         then (case localGetFile env path w of
                 (Inl e, w1) \<Rightarrow> w1
               | (Inr response, w1) \<Rightarrow>
                   if rsp_ok response
                   then snd (localPutFile env conflictPath (rsp_body response) olderTimestamp w1)
                   else w1)
         else w)"

text \<open>\<^verbatim>\<open>handleConflictWithStrategy\<close>: whether the sync of the path goes on.\<close>

definition handleConflictWithStrategy ::
  "env \<Rightarrow> string \<Rightarrow> int \<Rightarrow> int \<Rightarrow> strategy \<Rightarrow> world \<Rightarrow> bool \<times> world" where
  "handleConflictWithStrategy env path localTimestamp cloudTimestamp conflictStrategy w =
     (case conflictStrategy of
        KeepNewer \<Rightarrow> (True, w)
      | KeepLocal \<Rightarrow> (False, w)
      | KeepRemote \<Rightarrow> (True, w)
      | KeepBoth \<Rightarrow> (True, handleConflict env path localTimestamp cloudTimestamp w))"

section \<open>Sync targets (sync-targets.ts)\<close>

text \<open>Every flag is optional in the source, so it is absent, false or true.\<close>

record SyncOptions =
  deleteFoldersOnly :: "bool option"
  onlyIfMissing :: "bool option"
  avoidDeletions :: "bool option"
  trackConflicts :: "bool option"
  trackUpdatedFiles :: "bool option"

record SyncTarget =
  targetPath :: string
  excludedItems :: "string list option"
  targetOptions :: "SyncOptions option"

definition truthy :: "bool option \<Rightarrow> bool" where
  "truthy b = (b = Some True)"

definition shouldAvoidDeletion :: "string \<Rightarrow> SyncTarget \<Rightarrow> bool \<Rightarrow> bool" where
  "shouldAvoidDeletion path target isDir =
     (if truthy (case targetOptions target of None \<Rightarrow> None | Some os \<Rightarrow> avoidDeletions os) then True
      else if truthy (case targetOptions target of None \<Rightarrow> None | Some os \<Rightarrow> deleteFoldersOnly os)
              \<and> \<not> isDir then True
      else False)"

text \<open>\<^verbatim>\<open>target?.options?.flag\<close> for an optional target.\<close>

definition targetFlag :: "(SyncOptions \<Rightarrow> bool option) \<Rightarrow> SyncTarget option \<Rightarrow> bool option" where
  "targetFlag flag target =
     (case target of
        None \<Rightarrow> None
      | Some t \<Rightarrow> (case targetOptions t of None \<Rightarrow> None | Some os \<Rightarrow> flag os))"

section \<open>SyncUtils and SyncManager: transfers and single-file reconciliation\<close>

definition encodePathToFileName :: "string \<Rightarrow> string" where
  "encodePathToFileName path =
     map (\<lambda>c. if c = CHR ''/'' then CHR ''_'' else c) (dropWhile (\<lambda>c. c = CHR ''/'') path)"

text \<open>\<^verbatim>\<open>SyncUtils.deleteCloudFile(client, cloudFile.fileId)\<close>; a record without an id makes
  the hub refuse the call.\<close>

definition deleteCloudFile :: "env \<Rightarrow> int option \<Rightarrow> world \<Rightarrow> (error + unit) \<times> world" where
  "deleteCloudFile env fid w =
     (case fid of None \<Rightarrow> (Inl MissingFileId, w) | Some i \<Rightarrow> deleteFiles env [i] w)"

text \<open>\<^verbatim>\<open>deleteLocalFile\<close> does not look at the response.\<close>

definition deleteLocalFile :: "env \<Rightarrow> string \<Rightarrow> world \<Rightarrow> (error + unit) \<times> world" where
  "deleteLocalFile env path w = andThen (localRemoveFile env path w) (\<lambda>_ w1. (Inr (), w1))"

text \<open>\<^verbatim>\<open>uploadLocalFileToCloud\<close>: the hub object's id, the digest and the size.\<close>

definition uploadLocalFileToCloud ::
  "env \<Rightarrow> string \<Rightarrow> string \<Rightarrow> world \<Rightarrow> (error + int \<times> string \<times> int) \<times> world" where
  "uploadLocalFileToCloud env localPath fileName w =
     andThen (localGetFile env localPath w) (\<lambda>response w1.
       if \<not> rsp_ok response then (Inl (LocalFileUnreadable localPath), w1)
       else (let encodedFileName = encodePathToFileName localPath;
                 content = rsp_body response;
                 md5sum = digest env content
             in andThen (listFiles env w1) (\<lambda>existingFiles w2.
                  andThen (case find (\<lambda>f. cf_filename f = encodedFileName \<and> cf_type f = 0) existingFiles of
                             Some existingFile \<Rightarrow> deleteFiles env [cf_fileId existingFile] w2
                           | None \<Rightarrow> (Inr (), w2)) (\<lambda>_ w3.
                    andThen (uploadSingle env encodedFileName content w3) (\<lambda>newId w4.
                      (Inr (newId, md5sum, int (length content)), w4))))))"

text \<open>\<^verbatim>\<open>downloadCloudFileToLocal\<close>. Local folders are not modelled, so the creation of
  the parent folder is left out.\<close>

definition downloadCloudFileToLocal ::
  "env \<Rightarrow> int \<Rightarrow> string \<Rightarrow> int \<Rightarrow> world \<Rightarrow> (error + unit) \<times> world" where
  "downloadCloudFileToLocal env fid localPath timestamp w =
     andThen (getDownloadUrl env fid w) (\<lambda>downloadUrl w1.
       andThen (fetch env downloadUrl w1) (\<lambda>response w2.
         if \<not> rsp_ok response then (Inl (DownloadNotOk fid), w2)
         else andThen (localPutFile env localPath (rsp_body response) timestamp w2) (\<lambda>putResponse w3.
                if \<not> rsp_ok putResponse then (Inl (LocalSaveFailed localPath), w3)
                else (Inr (), w3))))"

text \<open>The \<^verbatim>\<open>catch\<close> blocks that record a \<^verbatim>\<open>SyncError\<close> and throw the error again.\<close>

definition recording ::
  "operation \<Rightarrow> string \<Rightarrow> (error + unit) \<times> world \<Rightarrow> (error + unit) \<times> world" where
  "recording op path m =
     (case m of
        (Inl e, w) \<Rightarrow>
          (Inl e, w\<lparr>syncErrors := syncErrors w @
                      [\<lparr>se_path = path, se_operation = op, se_error = e, se_timestamp = now w\<rparr>]\<rparr>)
      | (Inr u, w) \<Rightarrow> (Inr u, w))"

definition uploadFileToCloud :: "env \<Rightarrow> string \<Rightarrow> FileInfo \<Rightarrow> world \<Rightarrow> (error + unit) \<times> world" where
  "uploadFileToCloud env path localFile w =
     recording OpUpload path
       (let fileName = (if lastPart (splitOn CHR ''/'' path) = [] then ''file''
                        else lastPart (splitOn CHR ''/'' path));
            encodedFileName = encodePathToFileName path
        in andThen (uploadLocalFileToCloud env path fileName w) (\<lambda>(newId, md5sum, sz) w1.
             updateFile env path
               \<lparr>cfi_name = fi_name localFile, cfi_path = path, cfi_encodedFileName = encodedFileName,
                cfi_fileId = newId,
                cfi_updated = (if fi_updated localFile \<noteq> 0 then fi_updated localFile else now w1),
                cfi_size = sz, cfi_md5 = Some md5sum, cfi_isDir = False\<rparr> w1))"

definition downloadFileFromCloud :: "env \<Rightarrow> string \<Rightarrow> FileInfo \<Rightarrow> world \<Rightarrow> (error + unit) \<times> world" where
  "downloadFileFromCloud env path cloudFile w =
     recording OpDownload path
       (case fi_fileId cloudFile of
          None \<Rightarrow> (Inl MissingFileId, w)
        | Some fid \<Rightarrow> downloadCloudFileToLocal env fid path (fi_updated cloudFile) w)"

text \<open>\<^verbatim>\<open>file?.updated || 0\<close>.\<close>

definition updatedOrZero :: "FileInfo option \<Rightarrow> int" where
  "updatedOrZero file = (case file of None \<Rightarrow> 0 | Some f \<Rightarrow> fi_updated f)"

text \<open>\<^verbatim>\<open>getLastSyncWithRemote(remote, other.instanceId!)\<close>: a missing id finds no entry.\<close>

definition lastSyncWith :: "Remote \<Rightarrow> Remote \<Rightarrow> int" where
  "lastSyncWith remote other =
     (case instanceId other of None \<Rightarrow> 0 | Some i \<Rightarrow> getLastSyncWithRemote remote i)"

text \<open>The test of \<^verbatim>\<open>handleDeletion\<close> for deleting the file from the side that holds it.\<close>

definition shouldDelete :: "int \<Rightarrow> int \<Rightarrow> int \<Rightarrow> bool" where
  "shouldDelete commonSync existingTimestamp mostRecentSync =
     (commonSync > 0 \<and> commonSync > existingTimestamp \<and> commonSync \<ge> mostRecentSync)"

definition handleDeletion ::
  "env \<Rightarrow> string \<Rightarrow> FileInfo option \<Rightarrow> FileInfo option \<Rightarrow> Remote \<Rightarrow> Remote \<Rightarrow> SyncTarget option
     \<Rightarrow> world \<Rightarrow> (error + unit) \<times> world" where
  "handleDeletion env path localFile cloudFile localRemote cloudRemote target w =
     (let missingLocal = (localFile = None);
          existingTimestamp = (if updatedOrZero localFile \<noteq> 0 then updatedOrZero localFile
                               else updatedOrZero cloudFile);
          commonSync = (if missingLocal then lastSyncWith cloudRemote localRemote
                        else lastSyncWith localRemote cloudRemote);
          mostRecentSync = (if missingLocal then getMostRecentSyncTime cloudRemote
                            else getMostRecentSyncTime localRemote);
          isDir = ((case localFile of None \<Rightarrow> False | Some f \<Rightarrow> fi_isDir f)
                   \<or> (case cloudFile of None \<Rightarrow> False | Some f \<Rightarrow> fi_isDir f));
          avoidDeletion = (case target of None \<Rightarrow> False | Some t \<Rightarrow> shouldAvoidDeletion path t isDir)
      in if shouldDelete commonSync existingTimestamp mostRecentSync \<and> \<not> avoidDeletion
         then (case (localFile, cloudFile) of
                 (None, Some c) \<Rightarrow>
                   recording OpDelete path
                     (andThen (deleteCloudFile env (fi_fileId c) w) (\<lambda>_ w1. removeFile env path w1))
               | (Some l, _) \<Rightarrow> recording OpDelete path (deleteLocalFile env path w)
               | (None, None) \<Rightarrow> (Inr (), w))
         else (case (localFile, cloudFile) of
                 (None, Some c) \<Rightarrow> downloadFileFromCloud env path c w
               | (Some l, _) \<Rightarrow> uploadFileToCloud env path l w
               | (None, None) \<Rightarrow> (Inr (), w)))"

text \<open>The end of \<^verbatim>\<open>syncFile\<close>, after the conflict check: a file on one side only goes
  to \<^verbatim>\<open>handleDeletion\<close>, otherwise the newer side is transferred.\<close>

definition syncNewer ::
  "env \<Rightarrow> string \<Rightarrow> FileInfo option \<Rightarrow> FileInfo option \<Rightarrow> Remote \<Rightarrow> Remote \<Rightarrow> SyncTarget option
     \<Rightarrow> world \<Rightarrow> (error + unit) \<times> world" where
  "syncNewer env path localFile cloudFile localRemote cloudRemote target w =
     (case (localFile, cloudFile) of
        (Some l, Some c) \<Rightarrow>
          if fi_updated l > fi_updated c then uploadFileToCloud env path l w
          else if fi_updated c > fi_updated l then downloadFileFromCloud env path c w
          else (Inr (), w)
      | _ \<Rightarrow> handleDeletion env path localFile cloudFile localRemote cloudRemote target w)"

definition syncFile ::
  "env \<Rightarrow> strategy \<Rightarrow> string \<Rightarrow> FileInfo option \<Rightarrow> FileInfo option \<Rightarrow> Remote \<Rightarrow> Remote
     \<Rightarrow> SyncTarget option \<Rightarrow> world \<Rightarrow> (error + unit) \<times> world" where
  "syncFile env conflictStrategy path localFile cloudFile localRemote cloudRemote target w =
     (if localFile = None \<and> cloudFile = None then (Inr (), w)
      else if truthy (targetFlag onlyIfMissing target) \<and> localFile \<noteq> None \<and> cloudFile \<noteq> None
      then (Inr (), w)
      else (let localTimestamp = updatedOrZero localFile;
                cloudTimestamp = updatedOrZero cloudFile
            in if localFile \<noteq> None \<and> cloudFile \<noteq> None \<and> localTimestamp = cloudTimestamp
               then (Inr (), w)
               else (let shouldTrackConflicts = (targetFlag trackConflicts target \<noteq> Some False)
                     in if shouldTrackConflicts \<and> localFile \<noteq> None \<and> cloudFile \<noteq> None
                           \<and> detectConflict path localTimestamp cloudTimestamp localRemote cloudRemote
                        then (let (shouldSync, w1) =
                                    handleConflictWithStrategy env path localTimestamp cloudTimestamp
                                      conflictStrategy (w\<lparr>conflictDetected := True\<rparr>)
                              in if \<not> shouldSync then (Inr (), w1)
                                 else syncNewer env path localFile cloudFile localRemote cloudRemote target w1)
                        else syncNewer env path localFile cloudFile localRemote cloudRemote target w)))"

section \<open>Chunked upload (Pan123Client.uploadSlices, uploadSliceWithRetry)\<close>


definition UPLOAD_TIMEOUT :: int where
  "UPLOAD_TIMEOUT = 120000"






text \<open>What the upload does, in order: a slice submitted (its number, the attempt, and
  whether the attempt succeeded) and a pause before the next attempt (milliseconds).\<close>

datatype sliceEvent = Submit nat nat bool | Sleep int











text \<open>Reading a trace: the slices whose submission succeeded, in the order of the trace.\<close>

fun ackedSlices :: "sliceEvent list \<Rightarrow> nat list" where
  "ackedSlices [] = []"
| "ackedSlices (Submit sliceNo attempt True # es) = sliceNo # ackedSlices es"
| "ackedSlices (_ # es) = ackedSlices es"








section \<open>Example inputs\<close>

text \<open>Concrete inputs at which the theorems below are instantiated.\<close>

definition exampleTreeA :: StorageItem where
  "exampleTreeA = StorageItem ''data'' None None
     [StorageItem ''data/a.sy'' (Some ''data'') (Some \<lparr>fi_name = ''a.sy'', fi_path = ''data/a.sy'', fi_isDir = False, fi_updated = 100, fi_size = None, fi_md5 = None, fi_fileId = None\<rparr>) [],
      StorageItem ''data/b.sy'' (Some ''data'') (Some \<lparr>fi_name = ''b.sy'', fi_path = ''data/b.sy'', fi_isDir = False, fi_updated = 50, fi_size = None, fi_md5 = None, fi_fileId = None\<rparr>) []]"

definition exampleTreeB :: StorageItem where
  "exampleTreeB = StorageItem ''data'' None (Some \<lparr>fi_name = ''data'', fi_path = ''data'', fi_isDir = True, fi_updated = 7, fi_size = None, fi_md5 = None, fi_fileId = None\<rparr>)
     [StorageItem ''data/b.sy'' (Some ''data'') (Some \<lparr>fi_name = ''b.sy'', fi_path = ''data/b.sy'', fi_isDir = False, fi_updated = 60, fi_size = Some 3, fi_md5 = None, fi_fileId = Some 9\<rparr>) [],
      StorageItem ''data/c.sy'' (Some ''data'') (Some \<lparr>fi_name = ''c.sy'', fi_path = ''data/c.sy'', fi_isDir = False, fi_updated = 70, fi_size = Some 4, fi_md5 = None, fi_fileId = Some 10\<rparr>) []]"

definition exampleTreeC :: StorageItem where
  "exampleTreeC = StorageItem ''data'' None None
     [StorageItem ''data/c.sy'' (Some ''data'') (Some \<lparr>fi_name = ''c.sy'', fi_path = ''data/c.sy'', fi_isDir = False, fi_updated = 70, fi_size = Some 4, fi_md5 = None, fi_fileId = Some 10\<rparr>) []]"

text \<open>
  An environment in which every call succeeds. Its JSON codec knows three texts: the
  one it writes for an index, which it reads as \<open>exampleDoc\<close>; one for
  \<open>exampleDocNoFiles\<close>, a document of version 2 that has no \<^verbatim>\<open>files\<close> member; and
  \<^verbatim>\<open>null\<close>.
\<close>

definition exampleEntryB :: CloudFileInfo where
  "exampleEntryB =
     \<lparr>cfi_name = ''b.sy'', cfi_path = ''data/b.sy'', cfi_encodedFileName = ''data_b.sy'',
      cfi_fileId = 12, cfi_updated = 50, cfi_size = 3, cfi_md5 = Some ''d-bbb'', cfi_isDir = False\<rparr>"

definition exampleDoc :: parsed_doc where
  "exampleDoc =
     \<lparr>pd_version = JsNumber 2, pd_lastUpdated = 5, pd_instanceId = ''hub-1'',
      pd_files = Some [(''data/b.sy'', exampleEntryB)]\<rparr>"

definition exampleDocNoFiles :: parsed_doc where
  "exampleDocNoFiles =
     \<lparr>pd_version = JsNumber 2, pd_lastUpdated = 5, pd_instanceId = ''hub-1'', pd_files = None\<rparr>"

definition exampleEnv :: env where
  "exampleEnv =
     \<lparr>respond = (\<lambda>n r. Succeeds),
      parseJson = (\<lambda>s. if s = ''{index}'' then JsonValue exampleDoc
                        else if s = ''{version-2-no-files}'' then JsonValue exampleDocNoFiles
                        else if s = ''null'' then JsonNull else SyntaxError),
      stringifyIndex = (\<lambda>i. ''{index}''),
      stringifyLock = (\<lambda>t i. ''{lock}''),
      hubCreateAt = (\<lambda>t. ''2025-10-27 10:01:00''),
      randomUUID = (\<lambda>n. ''uuid''),
      digest = (\<lambda>c. ''d-'' @ c),
      formatDate = (\<lambda>t. ''2025-10-27 10:00:00'')\<rparr>"

text \<open>
  A hub folder with the hub's identity, the index and the file \<^verbatim>\<open>data/b.sy\<close>, at
  2025-10-27 10:01:00 UTC; locally the device's identity and the file \<^verbatim>\<open>data/a.sy\<close>.
\<close>

definition exampleWorld :: world where
  "exampleWorld =
     \<lparr>now = 1761559260000,
      objects =
        [(\<lparr>cf_fileId = 1, cf_filename = ''instance-id'', cf_type = 0, cf_createAt = ''2025-10-01 08:00:00''\<rparr>, ''hub-1''),
         (\<lparr>cf_fileId = 2, cf_filename = ''cloud-index-v2.json'', cf_type = 0, cf_createAt = ''2025-10-01 08:00:00''\<rparr>, ''{index}''),
         (\<lparr>cf_fileId = 12, cf_filename = ''data_b.sy'', cf_type = 0, cf_createAt = ''2025-10-01 08:00:00''\<rparr>, ''bbb'')],
      nextFileId = 20,
      localFiles = [(''/data/.siyuan/sync/instance-id'', ''dev-1'', 0), (''data/a.sy'', ''aaa'', 100)],
      uuidsDrawn = 0,
      requests = [],
      currentIndex = None,
      conflictDetected = False,
      syncErrors = []\<rparr>"

text \<open>The same, with the index object holding the document without \<^verbatim>\<open>files\<close>.\<close>

definition exampleWorldNoFiles :: world where
  "exampleWorldNoFiles =
     exampleWorld\<lparr>objects :=
        [(\<lparr>cf_fileId = 1, cf_filename = ''instance-id'', cf_type = 0, cf_createAt = ''2025-10-01 08:00:00''\<rparr>, ''hub-1''),
         (\<lparr>cf_fileId = 2, cf_filename = ''cloud-index-v2.json'', cf_type = 0, cf_createAt = ''2025-10-01 08:00:00''\<rparr>, ''{version-2-no-files}'')]\<rparr>"

text \<open>The two remotes after a sync with each other at second 80.\<close>

definition exampleLocalRemote :: Remote where
  "exampleLocalRemote =
     \<lparr>remoteName = ''local'', isCloud = False, instanceId = Some ''dev-1'', syncHistory = [(''hub-1'', 80)]\<rparr>"

definition exampleCloudRemote :: Remote where
  "exampleCloudRemote =
     \<lparr>remoteName = ''cloud'', isCloud = True, instanceId = Some ''hub-1'', syncHistory = [(''dev-1'', 80)]\<rparr>"

definition exampleCloudFileB :: FileInfo where
  "exampleCloudFileB =
     \<lparr>fi_name = ''b.sy'', fi_path = ''data/b.sy'', fi_isDir = False, fi_updated = 50,
      fi_size = Some 3, fi_md5 = Some ''d-bbb'', fi_fileId = Some 12\<rparr>"

definition exampleLocalFileA :: FileInfo where
  "exampleLocalFileA =
     \<lparr>fi_name = ''a.sy'', fi_path = ''data/a.sy'', fi_isDir = False, fi_updated = 100,
      fi_size = None, fi_md5 = None, fi_fileId = None\<rparr>"

text \<open>The first target of \<^verbatim>\<open>getDefaultSyncTargets\<close>, and one of those that delete folders only.\<close>

definition exampleDataTarget :: SyncTarget where
  "exampleDataTarget =
     \<lparr>targetPath = ''data'', excludedItems = Some [''.siyuan''],
      targetOptions = Some \<lparr>deleteFoldersOnly = None, onlyIfMissing = None, avoidDeletions = None,
                            trackConflicts = Some True, trackUpdatedFiles = Some True\<rparr>\<rparr>"

definition examplePluginsTarget :: SyncTarget where
  "examplePluginsTarget =
     \<lparr>targetPath = ''data/plugins'', excludedItems = None,
      targetOptions = Some \<lparr>deleteFoldersOnly = Some True, onlyIfMissing = None, avoidDeletions = None,
                            trackConflicts = None, trackUpdatedFiles = None\<rparr>\<rparr>"

definition exampleCloudFileA :: FileInfo where
  "exampleCloudFileA =
     \<lparr>fi_name = ''a.sy'', fi_path = ''data/a.sy'', fi_isDir = False, fi_updated = 90,
      fi_size = Some 3, fi_md5 = Some ''d-xyz'', fi_fileId = Some 11\<rparr>"

definition exampleSnippetsTarget :: SyncTarget where
  "exampleSnippetsTarget =
     \<lparr>targetPath = ''data/snippets'', excludedItems = None,
      targetOptions = Some \<lparr>deleteFoldersOnly = None, onlyIfMissing = Some True, avoidDeletions = Some True,
                            trackConflicts = None, trackUpdatedFiles = None\<rparr>\<rparr>"

text \<open>
  The example hub with a run lock taken one minute before the clock's time. In the
  first the hub stamps the lock's creation time as it stamps every object, as a
  formatted date; in the second the creation time is a count of milliseconds.
\<close>

definition exampleWorldDateLock :: world where
  "exampleWorldDateLock =
     exampleWorld\<lparr>objects := objects exampleWorld @
        [(\<lparr>cf_fileId = 3, cf_filename = ''sync.lock'', cf_type = 0, cf_createAt = ''2025-10-27 10:00:00''\<rparr>,
          ''{lock}'')]\<rparr>"

definition exampleWorldMillisLock :: world where
  "exampleWorldMillisLock =
     exampleWorld\<lparr>objects := objects exampleWorld @
        [(\<lparr>cf_fileId = 3, cf_filename = ''sync.lock'', cf_type = 0, cf_createAt = ''1761559200000''\<rparr>,
          ''{lock}'')]\<rparr>"

text \<open>A locked region that does nothing.\<close>

definition exampleLockedRegion :: "Remote \<Rightarrow> Remote \<Rightarrow> world \<Rightarrow> (error + unit) \<times> world" where
  "exampleLockedRegion localRemote cloudRemote w = (Inr (), w)"





text \<open>The hub also holds \<^verbatim>\<open>data/a.sy\<close>, in the version \<^const>\<open>exampleCloudFileA\<close> describes.\<close>

definition exampleWorldConflict :: world where
  "exampleWorldConflict =
     exampleWorld\<lparr>objects := objects exampleWorld @
        [(\<lparr>cf_fileId = 11, cf_filename = ''data_a.sy'', cf_type = 0, cf_createAt = ''2025-10-20 09:00:00''\<rparr>,
          ''xyz'')]\<rparr>"

section \<open>Properties\<close>

subsection \<open>Conflict detection\<close>

text \<open>
  Claim C3. \<open>detectConflict\<close> answers no when each history records 0 for the other
  endpoint, and no when the two timestamps are equal; in every other case it answers yes
  exactly when the local timestamp is later than the local history's entry for the cloud's
  id and the cloud timestamp is later than the cloud history's entry for the local id. An
  unknown peer reads as 0.
\<close>

theorem detectConflict_spec:
  fixes localRemote cloudRemote :: Remote
  defines "l \<equiv> getLastSyncWithRemote localRemote (idOrEmpty (instanceId cloudRemote))"
      and "c \<equiv> getLastSyncWithRemote cloudRemote (idOrEmpty (instanceId localRemote))"
  shows "(l = 0 \<and> c = 0 \<longrightarrow> \<not> detectConflict path lts cts localRemote cloudRemote)
       \<and> (lts = cts \<longrightarrow> \<not> detectConflict path lts cts localRemote cloudRemote)
       \<and> (\<not> (l = 0 \<and> c = 0) \<and> lts \<noteq> cts \<longrightarrow>
            detectConflict path lts cts localRemote cloudRemote = (lts > l \<and> cts > c))
       \<and> (map_of (syncHistory remote) peer = None \<longrightarrow> getLastSyncWithRemote remote peer = 0)"
  by (simp add: detectConflict_def l_def c_def getLastSyncWithRemote_def Let_def)

theorem detectConflict_spec_witness:
  "detectConflict ''data/a.sy'' 100 90
     \<lparr>remoteName = ''local'', isCloud = False, instanceId = Some ''dev'', syncHistory = [(''hub'', 80)]\<rparr>
     \<lparr>remoteName = ''cloud'', isCloud = True, instanceId = Some ''hub'', syncHistory = [(''dev'', 80)]\<rparr>
   \<and> \<not> detectConflict ''data/a.sy'' 100 70
     \<lparr>remoteName = ''local'', isCloud = False, instanceId = Some ''dev'', syncHistory = [(''hub'', 80)]\<rparr>
     \<lparr>remoteName = ''cloud'', isCloud = True, instanceId = Some ''hub'', syncHistory = [(''dev'', 80)]\<rparr>
   \<and> \<not> detectConflict ''data/a.sy'' 100 100
     \<lparr>remoteName = ''local'', isCloud = False, instanceId = Some ''dev'', syncHistory = [(''hub'', 80)]\<rparr>
     \<lparr>remoteName = ''cloud'', isCloud = True, instanceId = Some ''hub'', syncHistory = [(''dev'', 80)]\<rparr>
   \<and> \<not> detectConflict ''data/a.sy'' 100 90
     \<lparr>remoteName = ''local'', isCloud = False, instanceId = Some ''dev'', syncHistory = []\<rparr>
     \<lparr>remoteName = ''cloud'', isCloud = True, instanceId = Some ''hub'', syncHistory = [(''other'', 80)]\<rparr>
   \<and> getLastSyncWithRemote
     \<lparr>remoteName = ''cloud'', isCloud = True, instanceId = Some ''hub'', syncHistory = [(''other'', 80)]\<rparr>
     ''dev'' = 0"
  using
    detectConflict_spec [where localRemote = "\<lparr>remoteName = ''local'', isCloud = False, instanceId = Some ''dev'', syncHistory = [(''hub'', 80)]\<rparr>"
      and cloudRemote = "\<lparr>remoteName = ''cloud'', isCloud = True, instanceId = Some ''hub'', syncHistory = [(''dev'', 80)]\<rparr>"
      and lts = 100 and cts = 90 and path = "''data/a.sy''"]
    detectConflict_spec [where localRemote = "\<lparr>remoteName = ''local'', isCloud = False, instanceId = Some ''dev'', syncHistory = [(''hub'', 80)]\<rparr>"
      and cloudRemote = "\<lparr>remoteName = ''cloud'', isCloud = True, instanceId = Some ''hub'', syncHistory = [(''dev'', 80)]\<rparr>"
      and lts = 100 and cts = 70 and path = "''data/a.sy''"]
    detectConflict_spec [where localRemote = "\<lparr>remoteName = ''local'', isCloud = False, instanceId = Some ''dev'', syncHistory = [(''hub'', 80)]\<rparr>"
      and cloudRemote = "\<lparr>remoteName = ''cloud'', isCloud = True, instanceId = Some ''hub'', syncHistory = [(''dev'', 80)]\<rparr>"
      and lts = 100 and cts = 100 and path = "''data/a.sy''"]
    detectConflict_spec [where localRemote = "\<lparr>remoteName = ''local'', isCloud = False, instanceId = Some ''dev'', syncHistory = []\<rparr>"
      and cloudRemote = "\<lparr>remoteName = ''cloud'', isCloud = True, instanceId = Some ''hub'', syncHistory = [(''other'', 80)]\<rparr>"
      and lts = 100 and cts = 90 and path = "''data/a.sy''"
      and remote = "\<lparr>remoteName = ''cloud'', isCloud = True, instanceId = Some ''hub'', syncHistory = [(''other'', 80)]\<rparr>" and peer = "''dev''"]
  by (simp add: getLastSyncWithRemote_def idOrEmpty_def)

subsection \<open>Merging two trees\<close>

lemma update_fresh: "k \<notin> fst ` set m \<Longrightarrow> AList.update k v m = m @ [(k, v)]"
  by (induction m) auto

lemma set_update_subset: "set (AList.update k v m) \<subseteq> insert (k, v) (set m)"
  by (induction m) auto

lemma ins_keyed:
  "\<forall>(k, v) \<in> set m. k = itemPath v \<Longrightarrow>
   \<forall>(k, v) \<in> set (fold (\<lambda>file m. AList.update (itemPath file) file m) xs m). k = itemPath v"
proof (induction xs arbitrary: m)
  case Nil
  then show ?case by simp
next
  case (Cons x xs)
  have "\<forall>(k, v) \<in> set (AList.update (itemPath x) x m). k = itemPath v"
    using Cons.prems set_update_subset [of "itemPath x" x m] by auto
  from Cons.IH [OF this] show ?case by simp
qed

lemma ins_distinct:
  "distinct (map fst m) \<Longrightarrow>
   distinct (map fst (fold (\<lambda>file m. AList.update (itemPath file) file m) xs m))"
  by (induction xs arbitrary: m) (simp_all add: distinct_update)

lemma find_snoc:
  "find P (xs @ [x]) = (case find P xs of Some y \<Rightarrow> Some y | None \<Rightarrow> if P x then Some x else None)"
  by (induction xs) auto

lemma ins_map_of:
  "map_of (fold (\<lambda>file m. AList.update (itemPath file) file m) xs m) p =
   (case find (\<lambda>c. itemPath c = p) (rev xs) of Some c \<Rightarrow> Some c | None \<Rightarrow> map_of m p)"
proof (induction xs arbitrary: m)
  case Nil
  then show ?case by simp
next
  case (Cons x xs)
  show ?case
    by (simp add: Cons.IH find_snoc update_conv' split: option.splits)
qed

lemma find_map_snd:
  "distinct (map fst al) \<Longrightarrow> \<forall>(k, v) \<in> set al. k = itemPath v \<Longrightarrow>
   find (\<lambda>c. itemPath c = p) (map snd al) = map_of al p"
proof (induction al)
  case Nil
  then show ?case by simp
next
  case (Cons a al)
  then show ?case by (cases a) auto
qed

lemma ins_disjoint:
  "distinct (map fst m @ map itemPath xs) \<Longrightarrow>
   fold (\<lambda>file m. AList.update (itemPath file) file m) xs m = m @ map (\<lambda>f. (itemPath f, f)) xs"
proof (induction xs arbitrary: m)
  case Nil
  then show ?case by simp
next
  case (Cons x xs)
  have fresh: "itemPath x \<notin> fst ` set m" using Cons.prems by auto
  have "distinct (map fst (m @ [(itemPath x, x)]) @ map itemPath xs)"
    using Cons.prems by auto
  from Cons.IH [OF this] show ?case by (simp add: update_fresh [OF fresh])
qed

lemma filesMapOf_lookup:
  "find (\<lambda>c. itemPath c = p) (map snd (filesMapOf xs)) = find (\<lambda>c. itemPath c = p) (rev xs)"
proof -
  have d: "distinct (map fst (filesMapOf xs))"
    unfolding filesMapOf_def by (rule ins_distinct) simp
  have k: "\<forall>(k, v) \<in> set (filesMapOf xs). k = itemPath v"
    unfolding filesMapOf_def by (rule ins_keyed) simp
  have "find (\<lambda>c. itemPath c = p) (map snd (filesMapOf xs)) = map_of (filesMapOf xs) p"
    by (rule find_map_snd [OF d k])
  also have "\<dots> = find (\<lambda>c. itemPath c = p) (rev xs)"
    unfolding filesMapOf_def by (simp add: ins_map_of split: option.splits)
  finally show ?thesis .
qed

lemma filesMapOf_paths_distinct: "distinct (map itemPath (map snd (filesMapOf xs)))"
proof -
  have d: "distinct (map fst (filesMapOf xs))"
    unfolding filesMapOf_def by (rule ins_distinct) simp
  have k: "\<forall>(k, v) \<in> set (filesMapOf xs). k = itemPath v"
    unfolding filesMapOf_def by (rule ins_keyed) simp
  have "map itemPath (map snd al) = map fst al" if "\<forall>(k, v) \<in> set al. k = itemPath v" for al
    using that by (induction al) auto
  from this [OF k] have e: "map itemPath (map snd (filesMapOf xs)) = map fst (filesMapOf xs)" .
  show ?thesis unfolding e by (rule d)
qed

lemma filesMapOf_disjoint:
  "distinct (map itemPath xs) \<Longrightarrow> map snd (filesMapOf xs) = xs"
  unfolding filesMapOf_def using ins_disjoint [of "[]" xs] by (simp add: comp_def)


lemma find_in_distinct:
  "distinct (map f xs) \<Longrightarrow> c \<in> set xs \<Longrightarrow> find (\<lambda>d. f d = f c) xs = Some c"
  by (induction xs) (auto simp: rev_image_eqI)

lemma find_append_case:
  "find P (xs @ ys) = (case find P xs of Some x \<Rightarrow> Some x | None \<Rightarrow> find P ys)"
  by (induction xs) auto

text \<open>
  Claim C8. Merging two trees \<open>a\<close> and \<open>b\<close> of the same (non-empty) path gives a node with
  \<open>a\<close>'s path and parent, and with \<open>a\<close>'s metadata if it has any, else \<open>b\<close>'s. Its children
  have pairwise different paths; looking a path up among them gives the last child of
  that path in \<open>b\<close>, and only if \<open>b\<close> has none the last one in \<open>a\<close> (on a collision \<open>b\<close>'s
  entry wins), so every child of \<open>b\<close> is a child of the result when \<open>b\<close>'s paths are
  pairwise different; and when no path occurs twice among the children of \<open>a\<close> and \<open>b\<close>
  the children are \<open>a\<close>'s followed by \<open>b\<close>'s. Merging a tree with no tree gives the tree.
\<close>

theorem joinItems_spec:
  "(itemPath a = itemPath b \<and> itemPath a \<noteq> [] \<longrightarrow>
      (\<exists>r. joinItems (Some a) (Some b) = Inr r
         \<and> itemPath r = itemPath a \<and> itemParentPath r = itemParentPath a
         \<and> itemInfo r = (case itemInfo a of Some i \<Rightarrow> Some i | None \<Rightarrow> itemInfo b)
         \<and> distinct (map itemPath (itemFiles r))
         \<and> (\<forall>p. find (\<lambda>c. itemPath c = p) (itemFiles r) =
                  (case find (\<lambda>c. itemPath c = p) (rev (itemFiles b)) of
                     Some c \<Rightarrow> Some c
                   | None \<Rightarrow> find (\<lambda>c. itemPath c = p) (rev (itemFiles a))))
         \<and> (distinct (map itemPath (itemFiles b)) \<longrightarrow> set (itemFiles b) \<subseteq> set (itemFiles r))
         \<and> (distinct (map itemPath (itemFiles a @ itemFiles b)) \<longrightarrow>
              itemFiles r = itemFiles a @ itemFiles b)))
   \<and> joinItems (Some a) None = Inr a
   \<and> joinItems None (Some b) = Inr b"
proof -
  let ?fs = "map snd (filesMapOf (itemFiles a @ itemFiles b))"
  let ?r = "StorageItem (itemPath a) (itemParentPath a)
              (case itemInfo a of Some i \<Rightarrow> Some i | None \<Rightarrow> itemInfo b) ?fs"
  have lookup: "find (\<lambda>c. itemPath c = p) ?fs =
      (case find (\<lambda>c. itemPath c = p) (rev (itemFiles b)) of
         Some c \<Rightarrow> Some c
       | None \<Rightarrow> find (\<lambda>c. itemPath c = p) (rev (itemFiles a)))" for p
    by (simp add: filesMapOf_lookup find_append_case)
  have wins: "set (itemFiles b) \<subseteq> set ?fs" if d: "distinct (map itemPath (itemFiles b))"
  proof
    fix c assume c: "c \<in> set (itemFiles b)"
    have "distinct (map itemPath (rev (itemFiles b)))" using d by (simp add: rev_map [symmetric])
    from find_in_distinct [OF this, of c] c
    have "find (\<lambda>d. itemPath d = itemPath c) (rev (itemFiles b)) = Some c" by simp
    then have "find (\<lambda>d. itemPath d = itemPath c) ?fs = Some c"
      by (simp add: lookup)
    then show "c \<in> set ?fs" by (auto simp: find_Some_iff)
  qed
  have union: "?fs = itemFiles a @ itemFiles b"
    if "distinct (map itemPath (itemFiles a @ itemFiles b))"
    using that by (rule filesMapOf_disjoint)
  have "joinItems (Some a) (Some b) = Inr ?r" if "itemPath a = itemPath b" "itemPath a \<noteq> []"
    using that by (simp add: joinItems_def newStorageItem_def)
  moreover have "joinItems (Some a) None = Inr a" "joinItems None (Some b) = Inr b"
    by (simp_all add: joinItems_def)
  ultimately show ?thesis
    using lookup wins union filesMapOf_paths_distinct [of "itemFiles a @ itemFiles b"]
    by (intro conjI impI) (auto simp del: map_append map_map)
qed

theorem joinItems_spec_witness:
  "(\<exists>r. joinItems (Some exampleTreeA) (Some exampleTreeB) = Inr r
      \<and> itemPath r = ''data''
      \<and> itemInfo r = itemInfo exampleTreeB
      \<and> map itemPath (itemFiles r) = [''data/a.sy'', ''data/b.sy'', ''data/c.sy'']
      \<and> set (itemFiles exampleTreeB) \<subseteq> set (itemFiles r))
   \<and> (\<exists>r. joinItems (Some exampleTreeA) (Some exampleTreeC) = Inr r
      \<and> itemFiles r = itemFiles exampleTreeA @ itemFiles exampleTreeC)"
proof -
  from joinItems_spec [of exampleTreeA exampleTreeB]
  obtain r where r: "joinItems (Some exampleTreeA) (Some exampleTreeB) = Inr r"
      "itemPath r = itemPath exampleTreeA"
      "itemInfo r = (case itemInfo exampleTreeA of Some i \<Rightarrow> Some i | None \<Rightarrow> itemInfo exampleTreeB)"
      "set (itemFiles exampleTreeB) \<subseteq> set (itemFiles r)"
    by (auto simp: exampleTreeA_def exampleTreeB_def)
  have "joinItems (Some exampleTreeA) (Some exampleTreeB) =
          Inr (StorageItem ''data'' None (itemInfo exampleTreeB)
                [hd (itemFiles exampleTreeA), hd (itemFiles exampleTreeB), hd (tl (itemFiles exampleTreeB))])"
    by (simp add: joinItems_def newStorageItem_def filesMapOf_def exampleTreeA_def exampleTreeB_def)
  with r have first: "\<exists>r. joinItems (Some exampleTreeA) (Some exampleTreeB) = Inr r
      \<and> itemPath r = ''data''
      \<and> itemInfo r = itemInfo exampleTreeB
      \<and> map itemPath (itemFiles r) = [''data/a.sy'', ''data/b.sy'', ''data/c.sy'']
      \<and> set (itemFiles exampleTreeB) \<subseteq> set (itemFiles r)"
    by (auto simp: exampleTreeA_def exampleTreeB_def)
  from joinItems_spec [of exampleTreeA exampleTreeC]
  have second: "\<exists>r. joinItems (Some exampleTreeA) (Some exampleTreeC) = Inr r
      \<and> itemFiles r = itemFiles exampleTreeA @ itemFiles exampleTreeC"
    by (auto simp: exampleTreeA_def exampleTreeC_def)
  from first second show ?thesis by (rule conjI)
qed

subsection \<open>Unfolding the model on concrete inputs\<close>

lemmas example_defs =
  exampleEnv_def exampleWorld_def exampleWorldDateLock_def exampleWorldMillisLock_def
  exampleLockedRegion_def exampleWorldNoFiles_def exampleDocNoFiles_def exampleDoc_def exampleEntryB_def exampleLocalRemote_def
  exampleCloudRemote_def exampleCloudFileB_def exampleLocalFileA_def exampleDataTarget_def
  examplePluginsTarget_def

lemmas hub_defs =
  andThen_def call_def listFiles_def deleteFiles_def uploadSingle_def getDownloadUrl_def fetch_def
  localGetFile_def localPutFile_def localRemoveFile_def

lemmas index_defs =
  indexFileName_def createEmptyIndex_def asCloudIndexV2_def loadAttempt_def load_def save_def
  updateFile_def removeFile_def setInstanceId_def

lemmas transfer_defs =
  encodePathToFileName_def deleteCloudFile_def deleteLocalFile_def uploadLocalFileToCloud_def
  downloadCloudFileToLocal_def recording_def uploadFileToCloud_def downloadFileFromCloud_def
  lastPart_def

lemmas lock_defs =
  lockFileName_def fiveMinutesInMs_def instanceIdPath_def instanceIdFileName_def
  generateInstanceId_def setLocalInstanceId_def freshLocalInstanceId_def getLocalInstanceId_def
  setCloudInstanceId_def freshCloudInstanceId_def getCloudInstanceIdAttempt_def
  getCloudInstanceId_def initializeRemotes_def acquireLock_def releaseLock_def sync_def

lemmas number_defs =
  toNumber_def trimJs_def isWhiteSpace_def unsignedDecimal_def isDigit_def decimalValue_def
  digitValue_def

lemmas history_defs =
  lastSyncWith_def getLastSyncWithRemote_def getMostRecentSyncTime_def shouldAvoidDeletion_def
  truthy_def targetFlag_def idOrEmpty_def

subsection \<open>The calls a step sends\<close>

text \<open>Every step only adds to the list of calls sent.\<close>

lemma call_requests [simp]: "requests (snd (call env r w)) = requests w @ [r]"
  by (simp add: call_def)

lemma call_frame [simp]:
  "objects (snd (call env r w)) = objects w"
  "localFiles (snd (call env r w)) = localFiles w"
  "currentIndex (snd (call env r w)) = currentIndex w"
  "now (snd (call env r w)) = now w"
  by (simp_all add: call_def)











lemma prefix_snocI: "requests w' = requests w @ [r] \<Longrightarrow> prefix (requests w) (requests w')"
  by simp






lemma recording_requests [simp]: "requests (snd (recording op p m)) = requests (snd m)"
  by (cases m) (auto simp: recording_def split: sum.splits)



subsection \<open>Deletion or creation\<close>




subsection \<open>Single-file reconciliation: the cases without effect\<close>

text \<open>
  Claim C6. \<open>syncFile\<close> returns at once, leaving the hub, the index, the local files and
  the list of calls sent as they were, when neither side has the file, when the target
  sets \<open>onlyIfMissing\<close> and both sides have it, and when both sides have it with equal
  timestamps. When a conflict is detected and the strategy is keep-local, it returns
  having only raised the flag that a conflict was seen: no call is sent, so nothing is
  uploaded, downloaded or removed.
\<close>

theorem syncFile_noop:
  "syncFile env conflictStrategy path None None localRemote cloudRemote target w = (Inr (), w)
   \<and> (truthy (targetFlag onlyIfMissing target) \<longrightarrow>
        syncFile env conflictStrategy path (Some l) (Some c) localRemote cloudRemote target w = (Inr (), w))
   \<and> (fi_updated l = fi_updated c \<longrightarrow>
        syncFile env conflictStrategy path (Some l) (Some c) localRemote cloudRemote target w = (Inr (), w))
   \<and> (\<not> truthy (targetFlag onlyIfMissing target) \<and> fi_updated l \<noteq> fi_updated c
        \<and> targetFlag trackConflicts target \<noteq> Some False
        \<and> detectConflict path (fi_updated l) (fi_updated c) localRemote cloudRemote \<longrightarrow>
        syncFile env KeepLocal path (Some l) (Some c) localRemote cloudRemote target w
          = (Inr (), w\<lparr>conflictDetected := True\<rparr>))"
  by (simp add: syncFile_def updatedOrZero_def handleConflictWithStrategy_def Let_def)

theorem syncFile_noop_witness:
  "syncFile exampleEnv KeepNewer ''data/a.sy'' None None
       exampleLocalRemote exampleCloudRemote (Some exampleDataTarget) exampleWorld = (Inr (), exampleWorld)
   \<and> syncFile exampleEnv KeepNewer ''data/snippets/a.css'' (Some exampleLocalFileA) (Some exampleCloudFileA)
       exampleLocalRemote exampleCloudRemote (Some exampleSnippetsTarget) exampleWorld = (Inr (), exampleWorld)
   \<and> syncFile exampleEnv KeepNewer ''data/a.sy'' (Some exampleLocalFileA) (Some (exampleCloudFileA\<lparr>fi_updated := 100\<rparr>))
       exampleLocalRemote exampleCloudRemote (Some exampleDataTarget) exampleWorld = (Inr (), exampleWorld)
   \<and> syncFile exampleEnv KeepLocal ''data/a.sy'' (Some exampleLocalFileA) (Some exampleCloudFileA)
       exampleLocalRemote exampleCloudRemote (Some exampleDataTarget) exampleWorld
       = (Inr (), exampleWorld\<lparr>conflictDetected := True\<rparr>)"
  using
    syncFile_noop [where env = exampleEnv and conflictStrategy = KeepNewer and path = "''data/a.sy''"
      and localRemote = exampleLocalRemote and cloudRemote = exampleCloudRemote
      and target = "Some exampleDataTarget" and w = exampleWorld]
    syncFile_noop [where env = exampleEnv and conflictStrategy = KeepNewer and path = "''data/snippets/a.css''"
      and l = exampleLocalFileA and c = exampleCloudFileA
      and localRemote = exampleLocalRemote and cloudRemote = exampleCloudRemote
      and target = "Some exampleSnippetsTarget" and w = exampleWorld]
    syncFile_noop [where env = exampleEnv and conflictStrategy = KeepNewer and path = "''data/a.sy''"
      and l = exampleLocalFileA and c = "exampleCloudFileA\<lparr>fi_updated := 100\<rparr>"
      and localRemote = exampleLocalRemote and cloudRemote = exampleCloudRemote
      and target = "Some exampleDataTarget" and w = exampleWorld]
    syncFile_noop [where env = exampleEnv and path = "''data/a.sy''"
      and l = exampleLocalFileA and c = exampleCloudFileA
      and localRemote = exampleLocalRemote and cloudRemote = exampleCloudRemote
      and target = "Some exampleDataTarget" and w = exampleWorld]
  by (simp add: history_defs detectConflict_def exampleLocalRemote_def exampleCloudRemote_def
        exampleLocalFileA_def exampleCloudFileA_def exampleDataTarget_def exampleSnippetsTarget_def)

subsection \<open>Loading the index\<close>

lemma createEmptyIndex_fields [simp]:
  "idx_version (createEmptyIndex t) = 2" "idx_files (createEmptyIndex t) = []"
  "idx_instanceId (createEmptyIndex t) = []" "idx_lastUpdated (createEmptyIndex t) = t"
  by (simp_all add: createEmptyIndex_def)

lemma call_now [simp]: "now (snd (call env r w)) = now w"
  by (simp add: call_def)

lemma loadAttempt_now: "now (snd (loadAttempt env w)) = now w"
  by (simp add: loadAttempt_def hub_defs split: outcome.splits option.splits prod.splits parsed.splits)

lemma find_served:
  "find P (map fst xs) = Some f \<Longrightarrow> \<exists>y. find (\<lambda>(g, c). cf_fileId g = cf_fileId f) xs = Some y"
  by (induction xs) (auto split: if_splits)

text \<open>
  Claim C7, as amended. \<open>load\<close> returns a document and never an error. A cached
  document is returned as it is, and whatever is returned is cached. With nothing
  cached, the result is the empty document (version 2, no entries) when the listing
  fails, when the folder has no index object, when asking for the download location or
  fetching it fails, when the body is no JSON or is \<^verbatim>\<open>null\<close>, when the version is not the
  number 2, and also when a version-2 document has no \<^verbatim>\<open>files\<close> member; when the three
  calls succeed and the body parses to a version-2 document with a \<^verbatim>\<open>files\<close> member, the
  result is that document, member for member. Here \<open>n\<close> is the number of calls sent
  before, and the text served for the index object is that of the first object with its
  id.
\<close>

theorem load_spec:
  fixes env :: env and w :: world
  defines "n \<equiv> length (requests w)"
      and "listed \<equiv> find (\<lambda>f. cf_type f = 0 \<and> cf_filename f = indexFileName) (map fst (objects w))"
      and "blank \<equiv> createEmptyIndex (now w)"
  shows
   "(currentIndex w = Some cached \<longrightarrow> load env w = (cached, w))
    \<and> currentIndex (snd (load env w)) = Some (fst (load env w))
    \<and> idx_version blank = 2 \<and> idx_files blank = []
    \<and> (currentIndex w = None \<longrightarrow>
         (respond env n ListFiles \<noteq> Succeeds \<longrightarrow> fst (load env w) = blank)
       \<and> (listed = None \<longrightarrow> fst (load env w) = blank)
       \<and> (\<forall>indexFile. listed = Some indexFile \<longrightarrow>
            (respond env (n + 1) (GetDownloadUrl (cf_fileId indexFile)) \<noteq> Succeeds
               \<longrightarrow> fst (load env w) = blank)
          \<and> (respond env (n + 2) (Fetch (cf_fileId indexFile)) \<noteq> Succeeds
               \<longrightarrow> fst (load env w) = blank)
          \<and> (\<forall>served text.
                find (\<lambda>(f, c). cf_fileId f = cf_fileId indexFile) (objects w) = Some (served, text) \<longrightarrow>
                  (parseJson env text = SyntaxError \<longrightarrow> fst (load env w) = blank)
                \<and> (parseJson env text = JsonNull \<longrightarrow> fst (load env w) = blank)
                \<and> (\<forall>indexData. parseJson env text = JsonValue indexData \<longrightarrow>
                      (pd_version indexData \<noteq> JsNumber 2 \<longrightarrow> fst (load env w) = blank)
                    \<and> (pd_files indexData = None \<longrightarrow> fst (load env w) = blank)
                    \<and> (\<forall>fs. respond env n ListFiles = Succeeds
                            \<and> respond env (n + 1) (GetDownloadUrl (cf_fileId indexFile)) = Succeeds
                            \<and> respond env (n + 2) (Fetch (cf_fileId indexFile)) = Succeeds
                            \<and> pd_version indexData = JsNumber 2 \<and> pd_files indexData = Some fs \<longrightarrow>
                          fst (load env w) = asCloudIndexV2 indexData fs)))))"
  unfolding n_def listed_def blank_def
  apply (intro conjI impI allI)
  apply (simp_all add: load_def loadAttempt_def hub_defs split: outcome.splits option.splits prod.splits parsed.splits sum.splits)
  done


theorem load_spec_witness:
  "fst (load exampleEnv exampleWorld) = asCloudIndexV2 exampleDoc [(''data/b.sy'', exampleEntryB)]
   \<and> fst (load exampleEnv exampleWorldNoFiles) = createEmptyIndex (now exampleWorldNoFiles)
   \<and> fst (load exampleEnv (exampleWorld\<lparr>objects := []\<rparr>)) = createEmptyIndex (now exampleWorld)
   \<and> load exampleEnv (exampleWorld\<lparr>currentIndex := Some (createEmptyIndex 7)\<rparr>)
       = (createEmptyIndex 7, exampleWorld\<lparr>currentIndex := Some (createEmptyIndex 7)\<rparr>)"
  using
    load_spec [where env = exampleEnv and w = exampleWorld]
    load_spec [where env = exampleEnv and w = exampleWorldNoFiles]
    load_spec [where env = exampleEnv and w = "exampleWorld\<lparr>objects := []\<rparr>"]
    load_spec [where env = exampleEnv and w = "exampleWorld\<lparr>currentIndex := Some (createEmptyIndex 7)\<rparr>"
      and cached = "createEmptyIndex 7"]
  by (simp add: example_defs indexFileName_def)

text \<open>
  The claim as first stated also promised that every successfully parsed version-2
  document is returned as it is. The hub here serves a version-2 document without a
  \<^verbatim>\<open>files\<close> member; all three calls succeed and the text parses, yet \<open>load\<close> answers with
  a new empty document, whose owner id and time differ from the document's.
\<close>

theorem load_as_is_counterexample:
  "parseJson exampleEnv ''{version-2-no-files}'' = JsonValue exampleDocNoFiles
   \<and> pd_version exampleDocNoFiles = JsNumber 2
   \<and> currentIndex exampleWorldNoFiles = None
   \<and> requests (snd (load exampleEnv exampleWorldNoFiles)) = [ListFiles, GetDownloadUrl 2, Fetch 2]
   \<and> fst (load exampleEnv exampleWorldNoFiles) = createEmptyIndex (now exampleWorldNoFiles)
   \<and> idx_instanceId (fst (load exampleEnv exampleWorldNoFiles)) \<noteq> pd_instanceId exampleDocNoFiles
   \<and> idx_lastUpdated (fst (load exampleEnv exampleWorldNoFiles)) \<noteq> pd_lastUpdated exampleDocNoFiles"
  by (simp add: example_defs hub_defs index_defs)

subsection \<open>Removing paths from the index\<close>

lemma call_mutating:
  "\<not> mutating r \<Longrightarrow> filter mutating (requests (snd (call env r w))) = filter mutating (requests w)"
  by (simp add: call_def)










subsection \<open>The run lock\<close>















text \<open>
  Claim C4 says that a lock younger than five minutes makes the run fail with the
  lock-exists error and that no lock is created. The hub here holds a lock created one
  minute before the clock's time, with the creation time as the hub writes it, a
  formatted date. Its conversion to a number is \<open>NaN\<close>, so the age is \<open>NaN\<close> and is not
  below the threshold: \<open>acquireLock\<close> succeeds, having deleted the lock and uploaded a
  new one.
\<close>

theorem acquireLock_fresh_date_lock:
  "find (\<lambda>f. cf_filename f = lockFileName) (map fst (objects exampleWorldDateLock))
     = Some \<lparr>cf_fileId = 3, cf_filename = ''sync.lock'', cf_type = 0, cf_createAt = ''2025-10-27 10:00:00''\<rparr>
   \<and> now exampleWorldDateLock = 1761559260000
   \<and> toNumber ''2025-10-27 10:00:00'' = NaN
   \<and> fst (acquireLock exampleEnv exampleWorldDateLock) = Inr ()
   \<and> requests (snd (acquireLock exampleEnv exampleWorldDateLock))
       = [ListFiles, DeleteFiles [3], LocalGetFile ''/data/.siyuan/sync/instance-id'',
          UploadSingle ''sync.lock'' ''{lock}'']
   \<and> filter (\<lambda>(f, c). cf_filename f = lockFileName) (objects (snd (acquireLock exampleEnv exampleWorldDateLock)))
       = [(\<lparr>cf_fileId = 20, cf_filename = ''sync.lock'', cf_type = 0, cf_createAt = ''2025-10-27 10:01:00''\<rparr>,
           ''{lock}'')]"
  by (simp add: example_defs hub_defs lock_defs number_defs)

subsection \<open>Chunked upload\<close>

lemma ackedSlices_append [simp]: "ackedSlices (xs @ ys) = ackedSlices xs @ ackedSlices ys"
  by (induction xs rule: ackedSlices.induct) auto























subsection \<open>Keeping both versions\<close>

lemmas conflict_defs =
  exampleWorldConflict_def exampleCloudFileA_def syncFile_def syncNewer_def
  handleConflictWithStrategy_def handleConflict_def detectConflict_def updatedOrZero_def
  conflictPathOf_def conflictFileNameOf_def conflictCopyLabel_def lastIndexOf_def

text \<open>
  Claim C5, at an input where the hub's version is the older one. The local file
  \<^verbatim>\<open>data/a.sy\<close> was changed at 100 and the hub's at 90, both after the last common sync
  at 80: a conflict. Under keep-both \<^const>\<open>handleConflict\<close> then sends no call and writes
  nothing, and the sync of the file goes on to replace the hub's object by the local
  version: afterwards neither side holds the hub's content \<^verbatim>\<open>xyz\<close>, under any name.
\<close>

theorem keepBoth_cloud_older:
  "detectConflict ''data/a.sy'' 100 90 exampleLocalRemote exampleCloudRemote
   \<and> handleConflictWithStrategy exampleEnv ''data/a.sy'' 100 90 KeepBoth exampleWorldConflict
       = (True, exampleWorldConflict)
   \<and> map snd (objects exampleWorldConflict) = [''hub-1'', ''{index}'', ''bbb'', ''xyz'']
   \<and> fst (syncFile exampleEnv KeepBoth ''data/a.sy'' (Some exampleLocalFileA) (Some exampleCloudFileA)
             exampleLocalRemote exampleCloudRemote (Some exampleDataTarget) exampleWorldConflict) = Inr ()
   \<and> map snd (objects (snd (syncFile exampleEnv KeepBoth ''data/a.sy'' (Some exampleLocalFileA)
             (Some exampleCloudFileA) exampleLocalRemote exampleCloudRemote (Some exampleDataTarget)
             exampleWorldConflict))) = [''hub-1'', ''bbb'', ''aaa'', ''{index}'']
   \<and> localFiles (snd (syncFile exampleEnv KeepBoth ''data/a.sy'' (Some exampleLocalFileA)
             (Some exampleCloudFileA) exampleLocalRemote exampleCloudRemote (Some exampleDataTarget)
             exampleWorldConflict))
       = [(''/data/.siyuan/sync/instance-id'', ''dev-1'', 0), (''data/a.sy'', ''aaa'', 100)]"
  by (simp add: Let_def conflict_defs example_defs hub_defs index_defs transfer_defs history_defs)

text \<open>
  When the local version is the older one (90 against 100), \<^const>\<open>handleConflict\<close> writes
  the local content under the derived name, with the older timestamp, and doing it again
  leaves the local files as they are: one conflict copy.
\<close>

theorem keepBoth_local_older_twice:
  "localFiles (handleConflict exampleEnv ''data/a.sy'' 90 100 exampleWorldConflict)
     = localFiles exampleWorldConflict
       @ [(''data/a ('' @ conflictCopyLabel @ '' 2025-10-27-10-00-00).sy'', ''aaa'', 90)]
   \<and> localFiles (handleConflict exampleEnv ''data/a.sy'' 90 100
                   (handleConflict exampleEnv ''data/a.sy'' 90 100 exampleWorldConflict))
     = localFiles (handleConflict exampleEnv ''data/a.sy'' 90 100 exampleWorldConflict)
   \<and> objects (handleConflict exampleEnv ''data/a.sy'' 90 100 exampleWorldConflict)
     = objects exampleWorldConflict"
  by (simp add: Let_def conflict_defs example_defs hub_defs transfer_defs number_defs)

end
